theory Spec2Isabelle
  imports Main
begin

section \<open>The key-value store\<close>

text \<open>
  \<^verbatim>\<open>rd = redis.Redis(host='redis', port=6379, db=0)\<close>

  The handlers use three commands of the store: GET, SET and EXPIRE. An entry is a byte
  string with an optional time to live, in seconds. SET without options writes the value and
  drops any time to live the key had; EXPIRE on a key that is not there does nothing.
\<close>

record entry =
  val :: string
  ttl :: "nat option"

type_synonym redis = "string \<rightharpoonup> entry"

definition rd_get :: "redis \<Rightarrow> string \<Rightarrow> string option" where
  "rd_get r k = map_option val (r k)"

definition rd_set :: "redis \<Rightarrow> string \<Rightarrow> string \<Rightarrow> redis" where
  "rd_set r k v = r(k \<mapsto> \<lparr>val = v, ttl = None\<rparr>)"

definition rd_expire :: "redis \<Rightarrow> string \<Rightarrow> nat \<Rightarrow> redis" where
  "rd_expire r k n = (case r k of None \<Rightarrow> r | Some e \<Rightarrow> r(k \<mapsto> e\<lparr>ttl := Some n\<rparr>))"


section \<open>The upstream API and the effects of a request\<close>

text \<open>
  A response of the upstream carries a status code and a body. The handler reads the body
  only, through \<^verbatim>\<open>data.json()\<close>.

  The world a handler runs in is the store, the exchanges made with the upstream so far
  (the URL requested and the response received, oldest first) and the lines printed.
\<close>

record response =
  status :: nat
  content :: string

record world =
  rd :: redis
  exchanges :: "(string \<times> response) list"
  stdout :: "string list"

definition requests_get :: "(string \<Rightarrow> response) \<Rightarrow> world \<Rightarrow> string \<Rightarrow> response \<times> world" where
  "requests_get upstream w url =
     (upstream url, w\<lparr>exchanges := exchanges w @ [(url, upstream url)]\<rparr>)"

definition print :: "world \<Rightarrow> string \<Rightarrow> world" where
  "print w line = w\<lparr>stdout := stdout w @ [line]\<rparr>"


section \<open>The JSON codec\<close>

text \<open>
  \<^verbatim>\<open>json.loads\<close>, \<^verbatim>\<open>json.dumps\<close> and \<^verbatim>\<open>Response.json\<close> belong to libraries, not to this program.
  The handlers are parametric in them, and the type \<open>'j\<close> of decoded values is left open, since
  the program passes them through without looking inside.

  Decoding has three outcomes, because the handler tells them apart: a value; the exception
  \<^verbatim>\<open>json.JSONDecodeError\<close>, the only one the two \<^verbatim>\<open>except\<close> clauses name; or another exception,
  which no clause of the handler catches. The library raises \<^verbatim>\<open>UnicodeDecodeError\<close> on bytes that
  are not text (\<^verbatim>\<open>json.loads(b'\xff')\<close>), a plain \<^verbatim>\<open>ValueError\<close> on an integer of more than 4300
  digits and \<^verbatim>\<open>RecursionError\<close> on brackets nested too deep.
\<close>

datatype py_exception = UnicodeDecodeError | ValueError | RecursionError

datatype 'j decoding = Decoded 'j | JSONDecodeError | Raised py_exception

definition json_of :: "(string \<Rightarrow> 'j decoding) \<Rightarrow> response \<Rightarrow> 'j decoding" where
  "json_of loads data = loads (content data)"


section \<open>The handlers\<close>

text \<open>
  What leaves a handler that does not return: the \<^verbatim>\<open>HTTPException\<close> it raised, with its status
  code and detail, or an exception it did not catch.
\<close>

datatype failure = HTTPException nat string | Uncaught py_exception

text \<open>
  \<^verbatim>\<open>
  @app.get("/")
  def home():
      return "hello worlds"
  \<close>
\<close>

definition home :: "world \<Rightarrow> string \<times> world" where
  "home w = (''hello worlds'', w)"

text \<open>
  \<^verbatim>\<open>if cache:\<close> tests the truth value of what GET returned: \<^verbatim>\<open>None\<close> and the empty byte string
  are both false.
\<close>

definition truthy :: "string option \<Rightarrow> bool" where
  "truthy cache = (case cache of None \<Rightarrow> False | Some b \<Rightarrow> b \<noteq> [])"

text \<open>The f-string of the request: the path parameter is appended as it is.\<close>

definition search_url :: "string \<Rightarrow> string" where
  "search_url university = ''http://universities.hipolabs.com/search?country='' @ university"

text \<open>
  \<^verbatim>\<open>
  @app.get("/unidata/{university}")
  def fetch_fish(university:str):
      cache= rd.get(university)
      if cache:
          print("cache hit")
          try:
              return json.loads(cache)
          except json.JSONDecodeError:
              raise HTTPException(status_code=500, detail="Error decoding cached data")
      else:
          print("cache is not there in redis")
          data = requests.get(f"http://universities.hipolabs.com/search?country={university}")
          try:
              json_data = data.json()
              rd.set(university, json.dumps(json_data))
              rd.expire(university, 86400)
              return json_data
          except json.JSONDecodeError:
              raise HTTPException(status_code=500, detail="Error decoding data from FishWatch API")
  \<close>
\<close>

definition fetch_fish ::
  "(string \<Rightarrow> 'j decoding) \<Rightarrow> ('j \<Rightarrow> string) \<Rightarrow> (string \<Rightarrow> response) \<Rightarrow> world \<Rightarrow> string
     \<Rightarrow> (failure + 'j) \<times> world" where
  "fetch_fish loads dumps upstream w university =
     (let cache = rd_get (rd w) university in
      if truthy cache then
        (let w1 = print w ''cache hit'' in
         case loads (the cache) of
           Decoded v \<Rightarrow> (Inr v, w1)
         | JSONDecodeError \<Rightarrow> (Inl (HTTPException 500 ''Error decoding cached data''), w1)
         | Raised x \<Rightarrow> (Inl (Uncaught x), w1))
      else
        (let w1 = print w ''cache is not there in redis'';
             (data, w2) = requests_get upstream w1 (search_url university) in
         case json_of loads data of
           Decoded json_data \<Rightarrow>
             (let w3 = w2\<lparr>rd := rd_set (rd w2) university (dumps json_data)\<rparr>;
                  w4 = w3\<lparr>rd := rd_expire (rd w3) university 86400\<rparr>
              in (Inr json_data, w4))
         | JSONDecodeError \<Rightarrow>
             (Inl (HTTPException 500 ''Error decoding data from FishWatch API''), w2)
         | Raised x \<Rightarrow> (Inl (Uncaught x), w2)))"


section \<open>Routing\<close>

text \<open>
  The two routes registered on the application. A handler that returns gives status 200 with
  what it returned as the body; one that raises \<^verbatim>\<open>HTTPException\<close> gives the exception's status
  with its detail as the body; an exception that escapes the handler gives the framework's
  status 500 with the fixed text \<^verbatim>\<open>Internal Server Error\<close>, and no detail.
\<close>

datatype request = Get_root | Get_unidata string

datatype 'j body = Greeting string | Json 'j | Detail string | Internal_server_error

definition app ::
  "(string \<Rightarrow> 'j decoding) \<Rightarrow> ('j \<Rightarrow> string) \<Rightarrow> (string \<Rightarrow> response) \<Rightarrow> world \<Rightarrow> request
     \<Rightarrow> (nat \<times> 'j body) \<times> world" where
  "app loads dumps upstream w req =
     (case req of
        Get_root \<Rightarrow> (let (s, w') = home w in ((200, Greeting s), w'))
      | Get_unidata university \<Rightarrow>
          (case fetch_fish loads dumps upstream w university of
             (Inr v, w') \<Rightarrow> ((200, Json v), w')
           | (Inl (HTTPException status_code detail), w') \<Rightarrow> ((status_code, Detail detail), w')
           | (Inl (Uncaught x), w') \<Rightarrow> ((500, Internal_server_error), w')))"


section \<open>Runs of the system\<close>

text \<open>
  The worlds the system can be in when it starts from an empty store and the store changes
  only through the two routes, each request meeting some upstream, and through the store's own
  eviction of an entry whose time to live is set.
\<close>

definition world0 :: world where
  "world0 = \<lparr>rd = Map.empty, exchanges = [], stdout = []\<rparr>"

inductive reachable :: "(string \<Rightarrow> 'j decoding) \<Rightarrow> ('j \<Rightarrow> string) \<Rightarrow> world \<Rightarrow> bool"
  for loads :: "string \<Rightarrow> 'j decoding" and dumps :: "'j \<Rightarrow> string" where
  start: "reachable loads dumps world0"
| serve: "reachable loads dumps w \<Longrightarrow> reachable loads dumps (snd (app loads dumps upstream w req))"
| evict: "reachable loads dumps w \<Longrightarrow> rd w k = Some e \<Longrightarrow> ttl e = Some n
            \<Longrightarrow> reachable loads dumps (w\<lparr>rd := (rd w)(k := None)\<rparr>)"


section \<open>An excerpt of the codec, for running the handlers\<close>

text \<open>
  To run the handlers on concrete stores the examples below use decoded values built from
  \<^verbatim>\<open>None\<close>, booleans and lists. \<open>dumps_excerpt\<close> writes them as \<^verbatim>\<open>json.dumps\<close> does, with
  \<^verbatim>\<open>", "\<close> between the items of a list. \<open>loads_excerpt\<close> knows a handful of documents and
  answers on them as \<^verbatim>\<open>json.loads\<close> and \<^verbatim>\<open>Response.json\<close> both do: a hundred thousand opening
  brackets raise \<^verbatim>\<open>RecursionError\<close>, an integer of 4301 digits raises \<^verbatim>\<open>ValueError\<close>, four
  documents decode. Every other document counts as a \<^verbatim>\<open>JSONDecodeError\<close>, which is what the
  library says of the two the examples use, the empty document and \<^verbatim>\<open>not json\<close>.
\<close>

datatype json = JNull | JBool bool | JArr "json list"

fun join :: "string \<Rightarrow> string list \<Rightarrow> string" where
  "join sep [] = []"
| "join sep [x] = x"
| "join sep (x # y # ys) = x @ sep @ join sep (y # ys)"

fun dumps_excerpt :: "json \<Rightarrow> string" where
  "dumps_excerpt JNull = ''null''"
| "dumps_excerpt (JBool b) = (if b then ''true'' else ''false'')"
| "dumps_excerpt (JArr xs) = ''['' @ join '', '' (map dumps_excerpt xs) @ '']''"

definition nested_too_deep :: string where
  "nested_too_deep = replicate 100000 (CHR ''['')"

definition too_many_digits :: string where
  "too_many_digits = replicate 4301 (CHR ''1'')"

definition loads_excerpt :: "string \<Rightarrow> json decoding" where
  "loads_excerpt s =
     (if length s = 100000 \<and> s = nested_too_deep then Raised RecursionError
      else if length s = 4301 \<and> s = too_many_digits then Raised ValueError
      else if s = ''null'' then Decoded JNull
      else if s = ''[]'' then Decoded (JArr [])
      else if s = ''[true,false]'' then Decoded (JArr [JBool True, JBool False])
      else if s = ''[true, false]'' then Decoded (JArr [JBool True, JBool False])
      else JSONDecodeError)"

text \<open>An upstream that answers every request with the same response.\<close>

definition always :: "nat \<Rightarrow> string \<Rightarrow> string \<Rightarrow> response" where
  "always c b url = \<lparr>status = c, content = b\<rparr>"

text \<open>A world whose store holds one entry, with no time to live.\<close>

definition holding :: "string \<Rightarrow> string \<Rightarrow> world" where
  "holding k v = \<lparr>rd = [k \<mapsto> \<lparr>val = v, ttl = None\<rparr>], exchanges = [], stdout = []\<rparr>"


section \<open>The root operation\<close>

text \<open>
  C8. The root operation takes no parameter (the request \<open>Get_root\<close> carries none), always
  answers with status 200 and the fixed greeting, and leaves the world as it was: the store,
  the exchanges with the upstream and the printed lines are the same before and after.
\<close>

theorem home_fixed_greeting_no_effect:
  "app loads dumps upstream w Get_root = ((200, Greeting ''hello worlds''), w)
   \<and> home w = (''hello worlds'', w)"
  by (simp add: app_def home_def)

section \<open>The two branches of the lookup\<close>

text \<open>
  What \<open>fetch_fish\<close> computes on each side of \<^verbatim>\<open>if cache:\<close>, with the intermediate worlds
  written out.
\<close>

lemma fetch_fish_miss:
  "\<not> truthy (rd_get (rd w) k) \<Longrightarrow>
   fetch_fish loads dumps upstream w k =
     (case loads (content (upstream (search_url k))) of
        Decoded d \<Rightarrow>
          (Inr d, w\<lparr>rd := (rd w)(k \<mapsto> \<lparr>val = dumps d, ttl = Some 86400\<rparr>),
                    exchanges := exchanges w @ [(search_url k, upstream (search_url k))],
                    stdout := stdout w @ [''cache is not there in redis'']\<rparr>)
      | JSONDecodeError \<Rightarrow>
          (Inl (HTTPException 500 ''Error decoding data from FishWatch API''),
           w\<lparr>exchanges := exchanges w @ [(search_url k, upstream (search_url k))],
             stdout := stdout w @ [''cache is not there in redis'']\<rparr>)
      | Raised x \<Rightarrow>
          (Inl (Uncaught x),
           w\<lparr>exchanges := exchanges w @ [(search_url k, upstream (search_url k))],
             stdout := stdout w @ [''cache is not there in redis'']\<rparr>))"
  by (simp add: fetch_fish_def requests_get_def print_def json_of_def rd_set_def rd_expire_def
      split: option.splits decoding.splits)

lemma fetch_fish_hit:
  "rd_get (rd w) k = Some v \<Longrightarrow> v \<noteq> [] \<Longrightarrow>
   fetch_fish loads dumps upstream w k =
     (case loads v of
        Decoded d \<Rightarrow> (Inr d, w\<lparr>stdout := stdout w @ [''cache hit'']\<rparr>)
      | JSONDecodeError \<Rightarrow> (Inl (HTTPException 500 ''Error decoding cached data''),
                            w\<lparr>stdout := stdout w @ [''cache hit'']\<rparr>)
      | Raised x \<Rightarrow> (Inl (Uncaught x), w\<lparr>stdout := stdout w @ [''cache hit'']\<rparr>))"
  by (simp add: fetch_fish_def truthy_def print_def split: option.splits decoding.splits)

lemma absent_not_truthy: "rd w k = None \<Longrightarrow> \<not> truthy (rd_get (rd w) k)"
  by (simp add: truthy_def rd_get_def)

lemma empty_not_truthy: "rd w k = Some e \<Longrightarrow> val e = [] \<Longrightarrow> \<not> truthy (rd_get (rd w) k)"
  by (simp add: truthy_def rd_get_def)


text \<open>The two long documents of the excerpt, told apart from the others by their length.\<close>

lemma length_nested_too_deep [simp]: "length nested_too_deep = 100000"
  by (simp add: nested_too_deep_def)

lemma length_too_many_digits [simp]: "length too_many_digits = 4301"
  by (simp add: too_many_digits_def)


section \<open>Cache miss\<close>

text \<open>
  C1. When the key is absent from the store, the lookup makes exactly one exchange with the
  upstream, a GET of the search URL with the key after \<^verbatim>\<open>country=\<close>; if the body of the response
  decodes to \<open>d\<close>, the lookup returns \<open>d\<close> and the store afterwards is the old one with the key
  bound to the serialization of \<open>d\<close>, expiring in 86400 seconds.
\<close>

theorem miss_fetches_once_and_populates:
  assumes "rd w k = None"
      and "loads (content (upstream (search_url k))) = Decoded d"
  shows "fst (fetch_fish loads dumps upstream w k) = Inr d
       \<and> exchanges (snd (fetch_fish loads dumps upstream w k))
           = exchanges w @ [(''http://universities.hipolabs.com/search?country='' @ k,
                             upstream (search_url k))]
       \<and> rd (snd (fetch_fish loads dumps upstream w k))
           = (rd w)(k \<mapsto> \<lparr>val = dumps d, ttl = Some 86400\<rparr>)"
  using assms by (simp add: fetch_fish_miss absent_not_truthy search_url_def)

text \<open>
  The key \<^verbatim>\<open>canada\<close> on the empty store, the upstream answering \<^verbatim>\<open>[true,false]\<close>: the value is
  returned, and stored as \<^verbatim>\<open>json.dumps\<close> writes it.
\<close>

theorem miss_fetches_once_and_populates_witness:
  "rd world0 ''canada'' = None
   \<and> loads_excerpt (content (always 200 ''[true,false]'' (search_url ''canada'')))
       = Decoded (JArr [JBool True, JBool False])
   \<and> fst (fetch_fish loads_excerpt dumps_excerpt (always 200 ''[true,false]'') world0 ''canada'')
       = Inr (JArr [JBool True, JBool False])
   \<and> exchanges (snd (fetch_fish loads_excerpt dumps_excerpt (always 200 ''[true,false]'') world0 ''canada''))
       = [(''http://universities.hipolabs.com/search?country=canada'',
           \<lparr>status = 200, content = ''[true,false]''\<rparr>)]
   \<and> rd (snd (fetch_fish loads_excerpt dumps_excerpt (always 200 ''[true,false]'') world0 ''canada''))
        ''canada''
       = Some \<lparr>val = ''[true, false]'', ttl = Some 86400\<rparr>"
proof -
  have absent: "rd world0 ''canada'' = None"
    by (simp add: world0_def)
  have decodes: "loads_excerpt (content (always 200 ''[true,false]'' (search_url ''canada'')))
       = Decoded (JArr [JBool True, JBool False])"
    by (simp add: always_def loads_excerpt_def)
  show ?thesis
    using miss_fetches_once_and_populates
      [where w = world0 and k = "''canada''" and loads = loads_excerpt and dumps = dumps_excerpt
         and upstream = "always 200 ''[true,false]''" and d = "JArr [JBool True, JBool False]",
       OF absent decodes] absent decodes
    by (simp add: world0_def always_def)
qed


section \<open>Cache hit\<close>

text \<open>
  C2. When the store holds under the key a value that decodes to \<open>d\<close>, the lookup returns \<open>d\<close>
  and makes no exchange with the upstream; the store is left as it was. That the empty document
  does not decode to a value is a fact about the codec (\<^verbatim>\<open>json.loads(b"")\<close> raises
  \<^verbatim>\<open>JSONDecodeError\<close>).
\<close>

theorem hit_returns_decoded_without_upstream:
  assumes "\<And>d. loads [] \<noteq> Decoded d"
      and "rd_get (rd w) k = Some v"
      and "loads v = Decoded d"
  shows "fst (fetch_fish loads dumps upstream w k) = Inr d
       \<and> exchanges (snd (fetch_fish loads dumps upstream w k)) = exchanges w
       \<and> rd (snd (fetch_fish loads dumps upstream w k)) = rd w"
proof -
  from assms(1,3) have "v \<noteq> []" by auto
  with assms(2,3) show ?thesis by (simp add: fetch_fish_hit)
qed

theorem hit_returns_decoded_without_upstream_witness:
  "loads_excerpt [] = JSONDecodeError
   \<and> rd_get (rd (holding ''usa'' ''[true, false]'')) ''usa'' = Some ''[true, false]''
   \<and> loads_excerpt ''[true, false]'' = Decoded (JArr [JBool True, JBool False])
   \<and> fst (fetch_fish loads_excerpt dumps_excerpt (always 200 ''null'')
            (holding ''usa'' ''[true, false]'') ''usa'')
       = Inr (JArr [JBool True, JBool False])
   \<and> exchanges (snd (fetch_fish loads_excerpt dumps_excerpt (always 200 ''null'')
            (holding ''usa'' ''[true, false]'') ''usa'')) = []"
proof -
  have empty: "loads_excerpt [] = JSONDecodeError"
    by (simp add: loads_excerpt_def)
  then have law: "loads_excerpt [] \<noteq> Decoded d" for d
    by simp
  have held: "rd_get (rd (holding ''usa'' ''[true, false]'')) ''usa'' = Some ''[true, false]''"
    by (simp add: holding_def rd_get_def)
  have decodes: "loads_excerpt ''[true, false]'' = Decoded (JArr [JBool True, JBool False])"
    by (simp add: loads_excerpt_def)
  show ?thesis
    using hit_returns_decoded_without_upstream
      [where loads = loads_excerpt and dumps = dumps_excerpt and upstream = "always 200 ''null''"
         and w = "holding ''usa'' ''[true, false]''" and k = "''usa''" and v = "''[true, false]''"
         and d = "JArr [JBool True, JBool False]", OF law held decodes]
      empty held decodes
    by (simp add: holding_def)
qed

text \<open>
  The store holding the empty byte string under \<^verbatim>\<open>uk\<close>: the value does not decode, yet the
  lookup does not fail with the cache decode error. It goes to the upstream, returns what the
  upstream sent and overwrites the entry.
\<close>

theorem empty_value_is_not_a_corrupted_hit:
  "rd_get (rd (holding ''uk'' [])) ''uk'' = Some []
   \<and> loads_excerpt [] = JSONDecodeError
   \<and> fst (fetch_fish loads_excerpt dumps_excerpt (always 200 ''[]'') (holding ''uk'' []) ''uk'')
       = Inr (JArr [])
   \<and> fst (fetch_fish loads_excerpt dumps_excerpt (always 200 ''[]'') (holding ''uk'' []) ''uk'')
       \<noteq> Inl (HTTPException 500 ''Error decoding cached data'')
   \<and> exchanges (snd (fetch_fish loads_excerpt dumps_excerpt (always 200 ''[]'') (holding ''uk'' []) ''uk''))
       \<noteq> exchanges (holding ''uk'' [])
   \<and> rd (snd (fetch_fish loads_excerpt dumps_excerpt (always 200 ''[]'') (holding ''uk'' []) ''uk'')) ''uk''
       \<noteq> rd (holding ''uk'' []) ''uk''"
proof -
  have miss: "\<not> truthy (rd_get (rd (holding ''uk'' [])) ''uk'')"
    by (simp add: holding_def rd_get_def truthy_def)
  show ?thesis
    by (simp add: fetch_fish_miss [OF miss]) (simp add: holding_def rd_get_def always_def loads_excerpt_def)
qed

text \<open>
  C3, for a value that is not empty and on which decoding raises \<^verbatim>\<open>JSONDecodeError\<close>. When the
  store holds such a value under the key, the lookup raises the exception with status 500 and
  detail \<^verbatim>\<open>Error decoding cached data\<close>, which the route answers as status 500 with that detail;
  no exchange with the upstream is made and the store is left as it was, the corrupted entry
  included.
\<close>

theorem corrupted_hit_fails_without_upstream:
  assumes "rd_get (rd w) k = Some v"
      and "v \<noteq> []"
      and "loads v = JSONDecodeError"
  shows "fst (fetch_fish loads dumps upstream w k)
           = Inl (HTTPException 500 ''Error decoding cached data'')
       \<and> fst (app loads dumps upstream w (Get_unidata k))
           = (500, Detail ''Error decoding cached data'')
       \<and> exchanges (snd (fetch_fish loads dumps upstream w k)) = exchanges w
       \<and> rd (snd (fetch_fish loads dumps upstream w k)) = rd w"
  using assms by (simp add: app_def fetch_fish_hit)

theorem corrupted_hit_fails_without_upstream_witness:
  "rd_get (rd (holding ''uk'' ''not json'')) ''uk'' = Some ''not json''
   \<and> ''not json'' \<noteq> []
   \<and> loads_excerpt ''not json'' = JSONDecodeError
   \<and> fst (app loads_excerpt dumps_excerpt (always 200 ''[]'') (holding ''uk'' ''not json'')
            (Get_unidata ''uk''))
       = (500, Detail ''Error decoding cached data'')
   \<and> exchanges (snd (fetch_fish loads_excerpt dumps_excerpt (always 200 ''[]'')
            (holding ''uk'' ''not json'') ''uk'')) = []
   \<and> rd (snd (fetch_fish loads_excerpt dumps_excerpt (always 200 ''[]'')
            (holding ''uk'' ''not json'') ''uk'')) ''uk''
       = Some \<lparr>val = ''not json'', ttl = None\<rparr>"
proof -
  have held: "rd_get (rd (holding ''uk'' ''not json'')) ''uk'' = Some ''not json''"
    by (simp add: holding_def rd_get_def)
  have nonempty: "''not json'' \<noteq> []"
    by simp
  have corrupt: "loads_excerpt ''not json'' = JSONDecodeError"
    by (simp add: loads_excerpt_def)
  show ?thesis
    using corrupted_hit_fails_without_upstream
      [where loads = loads_excerpt and dumps = dumps_excerpt and upstream = "always 200 ''[]''"
         and w = "holding ''uk'' ''not json''" and k = "''uk''" and v = "''not json''",
       OF held nonempty corrupt] held corrupt
    by (simp add: holding_def)
qed

text \<open>
  The \<^verbatim>\<open>except\<close> clause of the hit names \<^verbatim>\<open>json.JSONDecodeError\<close> only. A stored value on which
  decoding raises another exception is not turned into the typed error: the exception leaves
  the handler and the route answers with the framework's bare status 500.
\<close>

lemma other_cache_failure_escapes:
  assumes "rd_get (rd w) k = Some v"
      and "v \<noteq> []"
      and "loads v = Raised x"
  shows "fst (fetch_fish loads dumps upstream w k) = Inl (Uncaught x)
       \<and> fst (app loads dumps upstream w (Get_unidata k)) = (500, Internal_server_error)"
  using assms by (simp add: app_def fetch_fish_hit)

lemma other_cache_failure_escapes_example:
  "fst (app loads_excerpt dumps_excerpt (always 200 ''[]'') (holding ''uk'' too_many_digits)
          (Get_unidata ''uk''))
     = (500, Internal_server_error)"
proof -
  have held: "rd_get (rd (holding ''uk'' too_many_digits)) ''uk'' = Some too_many_digits"
    by (simp add: holding_def rd_get_def)
  have nonempty: "too_many_digits \<noteq> []"
    by (simp add: too_many_digits_def)
  have raises: "loads_excerpt too_many_digits = Raised ValueError"
    by (simp add: loads_excerpt_def)
  from other_cache_failure_escapes
      [where w = "holding ''uk'' too_many_digits" and k = "''uk''" and v = too_many_digits
         and loads = loads_excerpt and x = ValueError, OF held nonempty raises]
  show ?thesis
    by simp
qed


section \<open>Undecodable upstream\<close>

text \<open>
  When the key is absent from the store and decoding the body of the upstream's response
  raises \<^verbatim>\<open>JSONDecodeError\<close>, the lookup raises the exception with status 500 and detail
  \<^verbatim>\<open>Error decoding data from FishWatch API\<close>, which the route answers as status 500 with that
  detail, and the store is left exactly as it was: nothing is written.
\<close>

lemma jsondecodeerror_upstream_fails_without_write:
  assumes "rd w k = None"
      and "loads (content (upstream (search_url k))) = JSONDecodeError"
  shows "fst (fetch_fish loads dumps upstream w k)
           = Inl (HTTPException 500 ''Error decoding data from FishWatch API'')
       \<and> fst (app loads dumps upstream w (Get_unidata k))
           = (500, Detail ''Error decoding data from FishWatch API'')
       \<and> rd (snd (fetch_fish loads dumps upstream w k)) = rd w"
  using assms by (simp add: app_def fetch_fish_miss absent_not_truthy)

lemma jsondecodeerror_upstream_fails_without_write_example:
  "fst (app loads_excerpt dumps_excerpt (always 200 ''not json'') (holding ''usa'' ''[]'')
          (Get_unidata ''fr''))
     = (500, Detail ''Error decoding data from FishWatch API'')
   \<and> rd (snd (fetch_fish loads_excerpt dumps_excerpt (always 200 ''not json'')
            (holding ''usa'' ''[]'') ''fr''))
       = [''usa'' \<mapsto> \<lparr>val = ''[]'', ttl = None\<rparr>]"
proof -
  have absent: "rd (holding ''usa'' ''[]'') ''fr'' = None"
    by (simp add: holding_def)
  have garbled: "loads_excerpt (content (always 200 ''not json'' (search_url ''fr'')))
      = JSONDecodeError"
    by (simp add: always_def loads_excerpt_def)
  show ?thesis
    using jsondecodeerror_upstream_fails_without_write
      [where w = "holding ''usa'' ''[]''" and k = "''fr''" and loads = loads_excerpt
         and dumps = dumps_excerpt and upstream = "always 200 ''not json''", OF absent garbled]
    by (simp add: holding_def)
qed

text \<open>
  C4, at a body on which decoding raises an exception other than \<^verbatim>\<open>JSONDecodeError\<close>, the only
  class the \<^verbatim>\<open>except\<close> clause of the miss names. Such a body does not decode, and the key is
  absent, yet the lookup does not give status 500 with the detail
  \<^verbatim>\<open>Error decoding data from FishWatch API\<close>: the exception leaves the handler, the result is
  not the typed error and the route answers with the framework's bare status 500, without the
  detail. Nothing is written to the store.
\<close>

theorem other_upstream_failure_escapes:
  assumes "rd w k = None"
      and "loads (content (upstream (search_url k))) = Raised x"
  shows "fst (fetch_fish loads dumps upstream w k) = Inl (Uncaught x)
       \<and> fst (fetch_fish loads dumps upstream w k)
           \<noteq> Inl (HTTPException 500 ''Error decoding data from FishWatch API'')
       \<and> fst (app loads dumps upstream w (Get_unidata k)) = (500, Internal_server_error)
       \<and> fst (app loads dumps upstream w (Get_unidata k))
           \<noteq> (500, Detail ''Error decoding data from FishWatch API'')
       \<and> rd (snd (fetch_fish loads dumps upstream w k)) = rd w"
  using assms by (simp add: app_def fetch_fish_miss absent_not_truthy)

text \<open>
  The key \<^verbatim>\<open>fr\<close> is absent and the upstream answers with a hundred thousand opening brackets,
  on which the decoder raises \<^verbatim>\<open>RecursionError\<close>.
\<close>

theorem other_upstream_failure_escapes_witness:
  "rd (holding ''usa'' ''[]'') ''fr'' = None
   \<and> loads_excerpt (content (always 200 nested_too_deep (search_url ''fr'')))
       = Raised RecursionError
   \<and> fst (fetch_fish loads_excerpt dumps_excerpt (always 200 nested_too_deep)
            (holding ''usa'' ''[]'') ''fr'')
       = Inl (Uncaught RecursionError)
   \<and> fst (app loads_excerpt dumps_excerpt (always 200 nested_too_deep) (holding ''usa'' ''[]'')
            (Get_unidata ''fr''))
       = (500, Internal_server_error)
   \<and> rd (snd (fetch_fish loads_excerpt dumps_excerpt (always 200 nested_too_deep)
            (holding ''usa'' ''[]'') ''fr''))
       = [''usa'' \<mapsto> \<lparr>val = ''[]'', ttl = None\<rparr>]"
proof -
  have absent: "rd (holding ''usa'' ''[]'') ''fr'' = None"
    by (simp add: holding_def)
  have raises: "loads_excerpt (content (always 200 nested_too_deep (search_url ''fr'')))
      = Raised RecursionError"
    by (simp add: always_def loads_excerpt_def)
  show ?thesis
    using other_upstream_failure_escapes
      [where w = "holding ''usa'' ''[]''" and k = "''fr''" and loads = loads_excerpt
         and dumps = dumps_excerpt and upstream = "always 200 nested_too_deep"
         and x = RecursionError, OF absent raises]
      absent raises
    by (simp add: holding_def)
qed


section \<open>Reading back what was just cached\<close>

text \<open>
  C5. The key is absent and the upstream's body decodes to \<open>d\<close>. The first lookup returns \<open>d\<close>.
  A second lookup right after it, whatever upstream it would meet, returns the same \<open>d\<close> with
  the one exchange of the first lookup remaining the only one, exactly when deserializing the
  serialization of \<open>d\<close> gives \<open>d\<close> back. The two statements are equivalent on the
  code; the second is a law of the codec, which the program takes from the library.
\<close>

theorem reread_same_iff_codec_roundtrip:
  assumes "\<And>d. loads [] \<noteq> Decoded d"
      and "rd w k = None"
      and "loads (content (upstream (search_url k))) = Decoded d"
  shows "fst (fetch_fish loads dumps upstream w k) = Inr d
       \<and> ((fst (fetch_fish loads dumps upstream' (snd (fetch_fish loads dumps upstream w k)) k)
              = Inr d
            \<and> exchanges (snd (fetch_fish loads dumps upstream'
                               (snd (fetch_fish loads dumps upstream w k)) k))
              = exchanges w @ [(search_url k, upstream (search_url k))])
           \<longleftrightarrow> loads (dumps d) = Decoded d)"
proof -
  let ?w1 = "snd (fetch_fish loads dumps upstream w k)"
  have first: "fetch_fish loads dumps upstream w k =
      (Inr d, w\<lparr>rd := (rd w)(k \<mapsto> \<lparr>val = dumps d, ttl = Some 86400\<rparr>),
                exchanges := exchanges w @ [(search_url k, upstream (search_url k))],
                stdout := stdout w @ [''cache is not there in redis'']\<rparr>)"
    using assms by (simp add: fetch_fish_miss absent_not_truthy)
  have held: "rd_get (rd ?w1) k = Some (dumps d)"
    by (simp add: first rd_get_def)
  show ?thesis
  proof (cases "dumps d = []")
    case True
    then have "\<not> truthy (rd_get (rd ?w1) k)"
      by (simp add: held truthy_def)
    then have "exchanges (snd (fetch_fish loads dumps upstream' ?w1 k))
        = exchanges ?w1 @ [(search_url k, upstream' (search_url k))]"
      by (simp add: fetch_fish_miss split: option.split decoding.split)
    moreover have "loads (dumps d) \<noteq> Decoded d"
      using True assms(1) by simp
    ultimately show ?thesis
      by (simp add: first)
  next
    case False
    show ?thesis
      using fetch_fish_hit [OF held False, of loads dumps upstream']
      by (auto simp: first split: option.splits decoding.splits)
  qed
qed

theorem reread_same_iff_codec_roundtrip_witness:
  "loads_excerpt [] = JSONDecodeError
   \<and> rd world0 ''canada'' = None
   \<and> loads_excerpt (content (always 200 ''[true,false]'' (search_url ''canada'')))
       = Decoded (JArr [JBool True, JBool False])
   \<and> fst (fetch_fish loads_excerpt dumps_excerpt (always 200 ''[true,false]'') world0 ''canada'')
       = Inr (JArr [JBool True, JBool False])
   \<and> fst (fetch_fish loads_excerpt dumps_excerpt (always 500 ''not json'')
        (snd (fetch_fish loads_excerpt dumps_excerpt (always 200 ''[true,false]'') world0 ''canada''))
        ''canada'')
       = Inr (JArr [JBool True, JBool False])
   \<and> exchanges (snd (fetch_fish loads_excerpt dumps_excerpt (always 500 ''not json'')
        (snd (fetch_fish loads_excerpt dumps_excerpt (always 200 ''[true,false]'') world0 ''canada''))
        ''canada''))
       = [(''http://universities.hipolabs.com/search?country=canada'',
           \<lparr>status = 200, content = ''[true,false]''\<rparr>)]
   \<and> loads_excerpt (dumps_excerpt (JArr [JBool True, JBool False]))
       = Decoded (JArr [JBool True, JBool False])"
proof -
  have empty: "loads_excerpt [] = JSONDecodeError"
    by (simp add: loads_excerpt_def)
  then have law: "loads_excerpt [] \<noteq> Decoded d" for d
    by simp
  have absent: "rd world0 ''canada'' = None"
    by (simp add: world0_def)
  have decodes: "loads_excerpt (content (always 200 ''[true,false]'' (search_url ''canada'')))
       = Decoded (JArr [JBool True, JBool False])"
    by (simp add: always_def loads_excerpt_def)
  have roundtrip: "loads_excerpt (dumps_excerpt (JArr [JBool True, JBool False]))
       = Decoded (JArr [JBool True, JBool False])"
    by (simp add: loads_excerpt_def)
  show ?thesis
    using reread_same_iff_codec_roundtrip
      [where loads = loads_excerpt and dumps = dumps_excerpt and w = world0 and k = "''canada''"
         and upstream = "always 200 ''[true,false]''" and upstream' = "always 500 ''not json''"
         and d = "JArr [JBool True, JBool False]", OF law absent decodes]
      empty absent decodes roundtrip
    by (simp add: world0_def always_def search_url_def)
qed


section \<open>No validation on a miss\<close>

text \<open>
  C6. On a miss the lookup requests the search URL with the country value appended as it is,
  empty or not, and reads only the body of the response: whatever the status code \<open>c\<close>, a body
  that decodes is stored under the key and returned as it is, and only a body that does not
  decode gives the upstream decode error, with nothing written. (A body on which decoding
  raises an exception of another class gives that exception, uncaught, with nothing written.)
\<close>

theorem miss_is_pass_through:
  assumes "\<not> truthy (rd_get (rd w) k)"
      and "upstream (search_url k) = \<lparr>status = c, content = b\<rparr>"
  shows "map fst (exchanges (snd (fetch_fish loads dumps upstream w k)))
           = map fst (exchanges w) @ [''http://universities.hipolabs.com/search?country='' @ k]
       \<and> (case loads b of
            Decoded d \<Rightarrow>
              fst (fetch_fish loads dumps upstream w k) = Inr d
              \<and> rd (snd (fetch_fish loads dumps upstream w k))
                  = (rd w)(k \<mapsto> \<lparr>val = dumps d, ttl = Some 86400\<rparr>)
          | JSONDecodeError \<Rightarrow>
              fst (fetch_fish loads dumps upstream w k)
                = Inl (HTTPException 500 ''Error decoding data from FishWatch API'')
              \<and> rd (snd (fetch_fish loads dumps upstream w k)) = rd w
          | Raised x \<Rightarrow>
              fst (fetch_fish loads dumps upstream w k) = Inl (Uncaught x)
              \<and> rd (snd (fetch_fish loads dumps upstream w k)) = rd w)"
  using assms by (simp add: fetch_fish_miss search_url_def split: option.split decoding.split)

text \<open>An empty country, a 404 whose body is the empty list: cached and returned.\<close>

theorem miss_is_pass_through_witness:
  "\<not> truthy (rd_get (rd world0) [])
   \<and> always 404 ''[]'' (search_url []) = \<lparr>status = 404, content = ''[]''\<rparr>
   \<and> map fst (exchanges (snd (fetch_fish loads_excerpt dumps_excerpt (always 404 ''[]'') world0 [])))
       = [''http://universities.hipolabs.com/search?country='']
   \<and> fst (fetch_fish loads_excerpt dumps_excerpt (always 404 ''[]'') world0 []) = Inr (JArr [])
   \<and> rd (snd (fetch_fish loads_excerpt dumps_excerpt (always 404 ''[]'') world0 [])) []
       = Some \<lparr>val = ''[]'', ttl = Some 86400\<rparr>"
proof -
  have miss: "\<not> truthy (rd_get (rd world0) [])"
    by (simp add: world0_def rd_get_def truthy_def)
  have answer: "always 404 ''[]'' (search_url []) = \<lparr>status = 404, content = ''[]''\<rparr>"
    by (simp add: always_def)
  show ?thesis
    using miss_is_pass_through
      [where w = world0 and k = "[]" and upstream = "always 404 ''[]''" and c = 404
         and b = "''[]''" and loads = loads_excerpt and dumps = dumps_excerpt, OF miss answer]
      miss answer
    by (simp add: world0_def loads_excerpt_def)
qed


section \<open>The empty value\<close>

text \<open>
  C9. When the store holds the empty byte string under the key, the lookup behaves as on a
  miss: it makes the exchange with the upstream and never gives the cache decode error. If the
  body decodes the value is returned and the entry overwritten with its serialization, expiring
  in 86400 seconds; if not, the result is the upstream decode error (or the exception of
  another class that decoding raised, uncaught).
\<close>

theorem empty_value_is_a_miss:
  assumes "rd w k = Some e"
      and "val e = []"
  shows "exchanges (snd (fetch_fish loads dumps upstream w k))
           = exchanges w @ [(search_url k, upstream (search_url k))]
       \<and> fst (fetch_fish loads dumps upstream w k)
           \<noteq> Inl (HTTPException 500 ''Error decoding cached data'')
       \<and> (case loads (content (upstream (search_url k))) of
            Decoded d \<Rightarrow>
              fst (fetch_fish loads dumps upstream w k) = Inr d
              \<and> rd (snd (fetch_fish loads dumps upstream w k))
                  = (rd w)(k \<mapsto> \<lparr>val = dumps d, ttl = Some 86400\<rparr>)
          | JSONDecodeError \<Rightarrow>
              fst (fetch_fish loads dumps upstream w k)
                = Inl (HTTPException 500 ''Error decoding data from FishWatch API'')
          | Raised x \<Rightarrow>
              fst (fetch_fish loads dumps upstream w k) = Inl (Uncaught x))"
  using empty_not_truthy [OF assms] by (simp add: fetch_fish_miss split: option.split decoding.split)

theorem empty_value_is_a_miss_witness:
  "rd (holding ''uk'' []) ''uk'' = Some \<lparr>val = [], ttl = None\<rparr>
   \<and> val \<lparr>val = [], ttl = None\<rparr> = []
   \<and> exchanges (snd (fetch_fish loads_excerpt dumps_excerpt (always 200 ''null'')
                     (holding ''uk'' []) ''uk''))
       = [(''http://universities.hipolabs.com/search?country=uk'',
           \<lparr>status = 200, content = ''null''\<rparr>)]
   \<and> fst (fetch_fish loads_excerpt dumps_excerpt (always 200 ''null'') (holding ''uk'' []) ''uk'')
       = Inr JNull
   \<and> rd (snd (fetch_fish loads_excerpt dumps_excerpt (always 200 ''null'')
              (holding ''uk'' []) ''uk'')) ''uk''
       = Some \<lparr>val = ''null'', ttl = Some 86400\<rparr>"
proof -
  have held: "rd (holding ''uk'' []) ''uk'' = Some \<lparr>val = [], ttl = None\<rparr>"
    by (simp add: holding_def)
  have empty: "val \<lparr>val = [], ttl = None\<rparr> = []"
    by simp
  show ?thesis
    using empty_value_is_a_miss
      [where w = "holding ''uk'' []" and k = "''uk''" and e = "\<lparr>val = [], ttl = None\<rparr>"
         and loads = loads_excerpt and dumps = dumps_excerpt and upstream = "always 200 ''null''",
       OF held empty]
      held
    by (simp add: holding_def always_def search_url_def loads_excerpt_def)
qed


section \<open>Other keys\<close>

text \<open>
  C10. Whatever the store, the upstream and the outcome of the lookup (a value or either decode
  error), the entry under every key other than the one looked up is the same after the lookup
  as before.
\<close>

theorem lookup_touches_only_its_key:
  assumes "k' \<noteq> k"
  shows "rd (snd (fetch_fish loads dumps upstream w k)) k' = rd w k'"
proof (cases "truthy (rd_get (rd w) k)")
  case True
  then obtain v where "rd_get (rd w) k = Some v" and "v \<noteq> []"
    by (auto simp: truthy_def split: option.splits decoding.splits)
  then show ?thesis
    by (simp add: fetch_fish_hit split: option.split decoding.split)
next
  case False
  with assms show ?thesis
    by (simp add: fetch_fish_miss split: option.split decoding.split)
qed

theorem lookup_touches_only_its_key_witness:
  "''usa'' \<noteq> ''canada''
   \<and> rd (snd (fetch_fish loads_excerpt dumps_excerpt (always 200 ''[]'')
              (holding ''usa'' ''null'') ''canada'')) ''usa''
       = rd (holding ''usa'' ''null'') ''usa''
   \<and> rd (holding ''usa'' ''null'') ''usa'' = Some \<lparr>val = ''null'', ttl = None\<rparr>
   \<and> rd (snd (fetch_fish loads_excerpt dumps_excerpt (always 200 ''[]'')
              (holding ''usa'' ''null'') ''canada'')) ''canada''
       = Some \<lparr>val = ''[]'', ttl = Some 86400\<rparr>"
proof -
  have other: "''usa'' \<noteq> ''canada''"
    by simp
  have miss: "\<not> truthy (rd_get (rd (holding ''usa'' ''null'')) ''canada'')"
    by (simp add: holding_def rd_get_def truthy_def)
  have written: "rd (snd (fetch_fish loads_excerpt dumps_excerpt (always 200 ''[]'')
              (holding ''usa'' ''null'') ''canada'')) ''canada''
       = Some \<lparr>val = ''[]'', ttl = Some 86400\<rparr>"
    by (simp add: fetch_fish_miss [OF miss]) (simp add: always_def loads_excerpt_def)
  show ?thesis
    using lookup_touches_only_its_key
      [where k' = "''usa''" and k = "''canada''" and loads = loads_excerpt
         and dumps = dumps_excerpt and upstream = "always 200 ''[]''"
         and w = "holding ''usa'' ''null''", OF other]
      written
    by (simp add: holding_def)
qed


section \<open>What the system itself writes\<close>

text \<open>
  A lookup leaves the store and the exchanges alone (a hit), or adds one exchange and leaves the
  store alone (a miss whose body does not decode), or adds one exchange and binds the key to the
  serialization of the decoded body.
\<close>

lemma fetch_fish_store:
  "(rd (snd (fetch_fish loads dumps upstream w k)) = rd w
      \<and> exchanges (snd (fetch_fish loads dumps upstream w k)) = exchanges w)
   \<or> (rd (snd (fetch_fish loads dumps upstream w k)) = rd w
      \<and> exchanges (snd (fetch_fish loads dumps upstream w k))
          = exchanges w @ [(search_url k, upstream (search_url k))])
   \<or> (\<exists>d. loads (content (upstream (search_url k))) = Decoded d
      \<and> rd (snd (fetch_fish loads dumps upstream w k))
          = (rd w)(k \<mapsto> \<lparr>val = dumps d, ttl = Some 86400\<rparr>)
      \<and> exchanges (snd (fetch_fish loads dumps upstream w k))
          = exchanges w @ [(search_url k, upstream (search_url k))])"
proof (cases "truthy (rd_get (rd w) k)")
  case True
  then obtain v where "rd_get (rd w) k = Some v" and "v \<noteq> []"
    by (auto simp: truthy_def split: option.splits decoding.splits)
  then show ?thesis
    by (simp add: fetch_fish_hit split: option.split decoding.split)
next
  case False
  then show ?thesis
    by (simp add: fetch_fish_miss split: option.split decoding.split)
qed

lemma app_snd:
  "snd (app loads dumps upstream w req) =
     (case req of Get_root \<Rightarrow> w
      | Get_unidata k \<Rightarrow> snd (fetch_fish loads dumps upstream w k))"
  by (simp add: app_def home_def split: request.split prod.split sum.split failure.split)

lemma reachable_entries_written:
  assumes "reachable loads dumps w"
      and "rd w k = Some e"
  shows "\<exists>r d. (search_url k, r) \<in> set (exchanges w) \<and> loads (content r) = Decoded d
            \<and> e = \<lparr>val = dumps d, ttl = Some 86400\<rparr>"
  using assms
proof (induction arbitrary: k e rule: reachable.induct)
  case start
  then show ?case
    by (simp add: world0_def)
next
  case (serve w upstream req)
  show ?case
  proof (cases req)
    case Get_root
    with serve show ?thesis
      by (simp add: app_snd)
  next
    case (Get_unidata k')
    let ?w' = "snd (fetch_fish loads dumps upstream w k')"
    from serve.prems Get_unidata have held: "rd ?w' k = Some e"
      by (simp add: app_snd)
    have grows: "set (exchanges w) \<subseteq> set (exchanges ?w')"
      using fetch_fish_store [of loads dumps upstream w k'] by auto
    consider (same) "rd ?w' = rd w"
      | (written) d where "loads (content (upstream (search_url k'))) = Decoded d"
          and "rd ?w' = (rd w)(k' \<mapsto> \<lparr>val = dumps d, ttl = Some 86400\<rparr>)"
          and "exchanges ?w' = exchanges w @ [(search_url k', upstream (search_url k'))]"
      using fetch_fish_store [of loads dumps upstream w k'] by blast
    then have "\<exists>r d. (search_url k, r) \<in> set (exchanges ?w') \<and> loads (content r) = Decoded d
            \<and> e = \<lparr>val = dumps d, ttl = Some 86400\<rparr>"
    proof cases
      case same
      with held have "rd w k = Some e" by simp
      from serve.IH [OF this] grows show ?thesis by blast
    next
      case written
      show ?thesis
      proof (cases "k = k'")
        case True
        with held written have "e = \<lparr>val = dumps d, ttl = Some 86400\<rparr>"
          by simp
        with written True show ?thesis
          by auto
      next
        case False
        with held written have "rd w k = Some e" by simp
        from serve.IH [OF this] grows show ?thesis by blast
      qed
    qed
    with Get_unidata show ?thesis
      by (simp add: app_snd)
  qed
next
  case (evict w k' e' n)
  from evict.prems have "rd w k = Some e"
    by (simp split: if_splits)
  from evict.IH [OF this] show ?case
    by simp
qed

text \<open>
  C7. In every world reachable from the empty store, each entry of the store is the
  serialization of a value decoded from the body of a response that the upstream gave to a
  request for that key's URL. Consequently a lookup of such a key is a hit that decodes: it
  returns the decoded value and never gives the cache decode error. The consequence rests on two
  laws of the codec, which the program takes from the library: the empty document does not
  decode, and the serialization of a decoded value decodes.
\<close>

theorem reachable_entries_decode:
  assumes "\<And>d. loads [] \<noteq> Decoded d"
      and "\<And>s d. loads s = Decoded d \<Longrightarrow> \<exists>d'. loads (dumps d) = Decoded d'"
      and "reachable loads dumps w"
      and "rd w k = Some e"
  shows "(\<exists>r d. (search_url k, r) \<in> set (exchanges w) \<and> loads (content r) = Decoded d
                \<and> val e = dumps d)
       \<and> (\<exists>d'. loads (val e) = Decoded d' \<and> fst (fetch_fish loads dumps upstream w k) = Inr d')
       \<and> fst (fetch_fish loads dumps upstream w k)
           \<noteq> Inl (HTTPException 500 ''Error decoding cached data'')"
proof -
  from reachable_entries_written [OF assms(3,4)]
  obtain r d where sent: "(search_url k, r) \<in> set (exchanges w)"
    and decoded: "loads (content r) = Decoded d"
    and e: "e = \<lparr>val = dumps d, ttl = Some 86400\<rparr>"
    by blast
  from assms(2) [OF decoded] obtain d' where again: "loads (dumps d) = Decoded d'"
    by auto
  with assms(1) [of d'] have nonempty: "dumps d \<noteq> []"
    by auto
  have held: "rd_get (rd w) k = Some (dumps d)"
    using assms(4) e by (simp add: rd_get_def)
  have "fst (fetch_fish loads dumps upstream w k) = Inr d'"
    by (simp add: fetch_fish_hit [OF held nonempty] again)
  with sent decoded e again show ?thesis
    by auto
qed

text \<open>
  The world after one lookup of \<^verbatim>\<open>canada\<close> on the empty store; the next lookup meets an upstream
  that is down and still answers from the entry.
\<close>

theorem reachable_entries_decode_witness:
  "loads_excerpt [] = JSONDecodeError
   \<and> reachable loads_excerpt dumps_excerpt
       (snd (app loads_excerpt dumps_excerpt (always 200 ''[true,false]'') world0
               (Get_unidata ''canada'')))
   \<and> rd (snd (app loads_excerpt dumps_excerpt (always 200 ''[true,false]'') world0
               (Get_unidata ''canada''))) ''canada''
       = Some \<lparr>val = ''[true, false]'', ttl = Some 86400\<rparr>
   \<and> loads_excerpt ''[true, false]'' = Decoded (JArr [JBool True, JBool False])
   \<and> fst (fetch_fish loads_excerpt dumps_excerpt (always 500 ''not json'')
            (snd (app loads_excerpt dumps_excerpt (always 200 ''[true,false]'') world0
                    (Get_unidata ''canada''))) ''canada'')
       = Inr (JArr [JBool True, JBool False])
   \<and> fst (fetch_fish loads_excerpt dumps_excerpt (always 500 ''not json'')
            (snd (app loads_excerpt dumps_excerpt (always 200 ''[true,false]'') world0
                    (Get_unidata ''canada''))) ''canada'')
       \<noteq> Inl (HTTPException 500 ''Error decoding cached data'')"
proof -
  let ?w = "snd (app loads_excerpt dumps_excerpt (always 200 ''[true,false]'') world0
               (Get_unidata ''canada''))"
  have empty: "loads_excerpt [] = JSONDecodeError"
    by (simp add: loads_excerpt_def)
  then have law: "loads_excerpt [] \<noteq> Decoded d" for d
    by simp
  have again: "\<exists>d'. loads_excerpt (dumps_excerpt d) = Decoded d'"
    if "loads_excerpt s = Decoded d" for s d
    using that by (auto simp: loads_excerpt_def split: if_splits)
  have run: "reachable loads_excerpt dumps_excerpt ?w"
    by (rule reachable.serve [OF reachable.start])
  have miss: "\<not> truthy (rd_get (rd world0) ''canada'')"
    by (simp add: world0_def rd_get_def truthy_def)
  have held: "rd ?w ''canada'' = Some \<lparr>val = ''[true, false]'', ttl = Some 86400\<rparr>"
    by (simp add: app_snd fetch_fish_miss [OF miss]) (simp add: always_def loads_excerpt_def)
  have decodes: "loads_excerpt ''[true, false]'' = Decoded (JArr [JBool True, JBool False])"
    by (simp add: loads_excerpt_def)
  show ?thesis
    using reachable_entries_decode
      [where loads = loads_excerpt and dumps = dumps_excerpt and w = ?w and k = "''canada''"
         and e = "\<lparr>val = ''[true, false]'', ttl = Some 86400\<rparr>"
         and upstream = "always 500 ''not json''", OF law again run held]
      empty run held decodes
    by auto
qed

end
